theory Spec2Isabelle
  imports Main
begin

section \<open>The command line layer of solar (package solar, cli.go)\<close>

text \<open>
  The flag values that kingpin fills in when the command line is parsed (\<^verbatim>\<open>*sbitRPC\<close>,
  \<^verbatim>\<open>*ethRPC\<close>, ...). They are read, never written, by the functions modelled below, so
  they are passed as one record.
\<close>

record config =
  sbitRPC :: string
  sbitSenderAddress :: string
  ethRPC :: string
  solarEnv :: string
  solarRepo :: string
  solcOptimize :: bool
  solcAllowPaths :: string

datatype RPCPlatform = RPCSbit | RPCEthereum

text \<open>
  What the process prints when it stops. \<open>UnspecifiedRPC\<close> is \<^verbatim>\<open>errorUnspecifiedRPC\<close>;
  the other constructors carry the arguments of the format strings of the source.
\<close>

datatype 'e message =
    UnspecifiedRPC
  | InvalidRPCUrl string
  | NewDeployerError 'e
  | ErrorOpeningRepo string 'e
  | InvalidSbitRPCURL string
  | InvalidAddressExpansion string
  | NilDereference

text \<open>
  The three ways in which a call does not return: \<^verbatim>\<open>log.Fatalln\<close>/\<^verbatim>\<open>log.Fatalf\<close> (message on
  stderr, exit status 1), \<^verbatim>\<open>os.Exit\<close> after printing, and \<^verbatim>\<open>panic\<close>.
\<close>

datatype 'e abort =
    LogFatal "'e message"
  | OsExit nat "'e message"
  | Panicked "'e message"

text \<open>Calls into other packages that the functions below make, in the order made.\<close>

datatype 'u call =
    OpenRepo string
  | NewSbitDeployer 'u string
  | NewEthDeployer 'u
  | NewSbitRPC string

text \<open>
  The struct \<^verbatim>\<open>solarCLI\<close>: a \<^verbatim>\<open>sync.Once\<close> is the flag saying whether its function has run, a
  pointer or interface field is \<open>None\<close> while it is nil.
\<close>

record ('d, 'r, 'v) solarCLI =
  depoyer :: "'d option"
  deployerOnce :: bool
  repo :: "'r option"
  repoOnce :: bool
  reporter :: "'v option"
  reporterOnce :: bool

text \<open>
  The process: the global \<^verbatim>\<open>solar\<close> with the calls made so far and the output mode of package
  contract.
\<close>

record ('d, 'r, 'v, 'u) process = "('d, 'r, 'v) solarCLI" +
  calls :: "'u call list"
  formatBytesWithPrefix :: bool

text \<open>
  The functions of net/url and of the packages contract, deployer/sbit and deployer/eth that
  cli.go calls; their code is not part of the files verified here, so they are parameters.
  A constructor of a deployer gives the pair that the assignment
  \<^verbatim>\<open>deployer, err = NewDeployer(...)\<close> stores: the interface value (\<open>None\<close> for nil) and the
  error (\<open>None\<close> for nil).
\<close>

record ('d, 'r, 'u, 'e, 'c, 'p) externals =
  ParseRequestURI :: "string \<Rightarrow> 'e + 'u"
  OpenContractsRepository :: "string \<Rightarrow> 'e + 'r"
  sbit_NewDeployer :: "'u \<Rightarrow> 'r option \<Rightarrow> string \<Rightarrow> 'd option \<times> 'e option"
  eth_NewDeployer :: "'u \<Rightarrow> 'r option \<Rightarrow> 'd option \<times> 'e option"
  sbit_NewRPC :: "string \<Rightarrow> 'e + 'p"
  Get :: "'r \<Rightarrow> string \<Rightarrow> 'c option"
  Address_String :: "'c \<Rightarrow> string"

subsection \<open>RPCPlatform\<close>

definition RPCPlatform :: "config \<Rightarrow> 'e abort + RPCPlatform" where
  "RPCPlatform cfg =
     (if sbitRPC cfg = [] \<and> ethRPC cfg = [] then Inl (LogFatal UnspecifiedRPC)
      else if sbitRPC cfg \<noteq> [] then Inr RPCSbit
      else Inr RPCEthereum)"

subsection \<open>ContractsRepository\<close>

definition ContractsRepository ::
  "config \<Rightarrow> ('d, 'r, 'u, 'e, 'c, 'p) externals \<Rightarrow> ('d, 'r, 'v, 'u) process
   \<Rightarrow> ('e abort + 'r option) \<times> ('d, 'r, 'v, 'u) process" where
  "ContractsRepository cfg ext c =
     (if repoOnce c then (Inr (repo c), c)
      else
        let repoFilePath =
              (if solarRepo cfg \<noteq> [] then solarRepo cfg
               else ''solar.'' @ solarEnv cfg @ ''.json'');
            c1 = c\<lparr>calls := calls c @ [OpenRepo repoFilePath]\<rparr>
        in case OpenContractsRepository ext repoFilePath of
             Inl err \<Rightarrow> (Inl (OsExit 1 (ErrorOpeningRepo repoFilePath err)), c1)
           | Inr r \<Rightarrow>
               let c2 = c1\<lparr>repo := Some r, repoOnce := True\<rparr>
               in (Inr (repo c2), c2))"

subsection \<open>SbitRPC\<close>


subsection \<open>ConfigureBytesOutputFormat\<close>

text \<open>
  Modelled from the spec: \<^verbatim>\<open>contract.SetFormatBytesWithPrefix\<close>, a function of package contract
  that cli.go calls. The spec speaks of "an output-encoding mode (addresses rendered with or
  without a chain-specific prefix)"; the setter stores its argument as that mode.
\<close>

definition SetFormatBytesWithPrefix ::
  "bool \<Rightarrow> ('d, 'r, 'v, 'u) process \<Rightarrow> ('d, 'r, 'v, 'u) process" where
  "SetFormatBytesWithPrefix b c = c\<lparr>formatBytesWithPrefix := b\<rparr>"

definition ConfigureBytesOutputFormat ::
  "config \<Rightarrow> ('d, 'r, 'v, 'u) process \<Rightarrow> ('d, 'r, 'v, 'u) process" where
  "ConfigureBytesOutputFormat cfg c =
     (if ethRPC cfg \<noteq> [] then SetFormatBytesWithPrefix True c else c)"

subsection \<open>ExpandJSONParams\<close>

text \<open>
  Modelled from the spec: \<^verbatim>\<open>varstr.Expand\<close>, the placeholder expander of package varstr, which
  cli.go calls. The spec: "Scans the text for two token forms, \<^verbatim>\<open>$Name\<close> and \<^verbatim>\<open>${Name}\<close>
  (name = contiguous identifier characters), and replaces each with the resolver's result
  [...] Expansion is single-pass, non-recursive (an address value is never itself re-scanned
  for tokens)". Identifier characters are taken to be the ASCII letters, the digits and the
  underscore; a \<^verbatim>\<open>$\<close> that starts no token is text like any other character.
\<close>

definition isIdentChar :: "char \<Rightarrow> bool" where
  "isIdentChar c =
     (let n = (of_char c :: nat)
      in (65 \<le> n \<and> n \<le> 90) \<or> (97 \<le> n \<and> n \<le> 122) \<or> (48 \<le> n \<and> n \<le> 57) \<or> n = 95)"

datatype piece = Text char | Ref string

text \<open>The single pass over the text: the tokens and the characters between them, in order.\<close>

function scan :: "string \<Rightarrow> piece list" where
  "scan [] = []"
| "scan (c # cs) =
     (if c \<noteq> CHR ''$'' then Text c # scan cs
      else if cs \<noteq> [] \<and> hd cs = CHR ''{'' then
        (let name = takeWhile isIdentChar (tl cs);
             after = dropWhile isIdentChar (tl cs)
         in if name \<noteq> [] \<and> after \<noteq> [] \<and> hd after = CHR ''}''
            then Ref name # scan (tl after)
            else Text c # scan cs)
      else
        (let name = takeWhile isIdentChar cs
         in if name \<noteq> [] then Ref name # scan (dropWhile isIdentChar cs)
            else Text c # scan cs))"
  by pat_completeness auto
termination
proof (relation "measure length")
  show "wf (measure length)" by simp
next
  fix c :: char and cs name after
  assume "after = dropWhile isIdentChar (tl cs)"
  moreover have "length (dropWhile isIdentChar (tl cs)) \<le> length (tl cs)"
    by (rule length_dropWhile_le)
  ultimately show "(tl after, c # cs) \<in> measure length" by simp
next
  fix c :: char and cs name
  have "length (dropWhile isIdentChar cs) \<le> length cs"
    by (rule length_dropWhile_le)
  then show "(dropWhile isIdentChar cs, c # cs) \<in> measure length" by simp
qed simp_all

text \<open>
  The replacement. The resolver of cli.go is a Go function that either returns the address
  or panics; a panic of the resolver (\<open>Inl\<close>) ends the expansion at the first token where it
  happens, and the result of a resolver is appended as it is, never scanned.
\<close>

fun subst :: "piece list \<Rightarrow> (string \<Rightarrow> 'x + string) \<Rightarrow> 'x + string" where
  "subst [] resolver = Inr []"
| "subst (Text c # ps) resolver =
     (case subst ps resolver of Inl e \<Rightarrow> Inl e | Inr s \<Rightarrow> Inr (c # s))"
| "subst (Ref name # ps) resolver =
     (case resolver name of
        Inl e \<Rightarrow> Inl e
      | Inr v \<Rightarrow> (case subst ps resolver of Inl e \<Rightarrow> Inl e | Inr s \<Rightarrow> Inr (v @ s)))"

definition Expand :: "string \<Rightarrow> (string \<Rightarrow> 'x + string) \<Rightarrow> 'x + string" where
  "Expand text resolver = subst (scan text) resolver"

text \<open>
  The function literal that \<^verbatim>\<open>ExpandJSONParams\<close> passes to \<^verbatim>\<open>varstr.Expand\<close>; \<open>rp\<close> is the
  pointer that \<^verbatim>\<open>ContractsRepository\<close> returned.
\<close>

definition resolveAddress ::
  "('d, 'r, 'u, 'e, 'c, 'p) externals \<Rightarrow> 'r option \<Rightarrow> string \<Rightarrow> 'e abort + string" where
  "resolveAddress ext rp key =
     (case rp of
        None \<Rightarrow> Inl (Panicked NilDereference)
      | Some r \<Rightarrow>
          (case Get ext r key of
             None \<Rightarrow> Inl (Panicked (InvalidAddressExpansion key))
           | Some contract \<Rightarrow> Inr (Address_String ext contract)))"

definition ExpandJSONParams ::
  "config \<Rightarrow> ('d, 'r, 'u, 'e, 'c, 'p) externals \<Rightarrow> ('d, 'r, 'v, 'u) process \<Rightarrow> string
   \<Rightarrow> ('e abort + string) \<times> ('d, 'r, 'v, 'u) process" where
  "ExpandJSONParams cfg ext c jsonParams =
     (case ContractsRepository cfg ext c of
        (Inl a, c1) \<Rightarrow> (Inl a, c1)
      | (Inr rp, c1) \<Rightarrow> (Expand jsonParams (resolveAddress ext rp), c1))"

subsection \<open>Deployer\<close>

text \<open>
  The first \<^verbatim>\<open>if\<close> block of \<^verbatim>\<open>Deployer\<close>, for the UTXO chain. It gives the values of the
  variables \<^verbatim>\<open>deployer\<close> and \<^verbatim>\<open>err\<close> after the block; both are nil when the block is skipped.
\<close>

definition Deployer_sbit ::
  "config \<Rightarrow> ('d, 'r, 'u, 'e, 'c, 'p) externals \<Rightarrow> ('d, 'r, 'v, 'u) process
   \<Rightarrow> ('e abort + 'd option \<times> 'e option) \<times> ('d, 'r, 'v, 'u) process" where
  "Deployer_sbit cfg ext c =
     (let rawurl = sbitRPC cfg in
      if rawurl \<noteq> [] then
        (case ParseRequestURI ext rawurl of
           Inl err \<Rightarrow> (Inl (LogFatal (InvalidRPCUrl rawurl)), c)
         | Inr rpcURL \<Rightarrow>
             (case ContractsRepository cfg ext c of
                (Inl a, c1) \<Rightarrow> (Inl a, c1)
              | (Inr r, c1) \<Rightarrow>
                  (Inr (sbit_NewDeployer ext rpcURL r (sbitSenderAddress cfg)),
                   c1\<lparr>calls := calls c1 @ [NewSbitDeployer rpcURL (sbitSenderAddress cfg)]\<rparr>)))
      else (Inr (None, None), c))"

text \<open>
  The second \<^verbatim>\<open>if\<close> block, for the account chain. It starts from the values \<open>de\<close> that the
  first block left in \<^verbatim>\<open>deployer\<close> and \<^verbatim>\<open>err\<close>, and assigns both again when it runs.
\<close>

definition Deployer_eth ::
  "config \<Rightarrow> ('d, 'r, 'u, 'e, 'c, 'p) externals \<Rightarrow> 'd option \<times> 'e option
   \<Rightarrow> ('d, 'r, 'v, 'u) process
   \<Rightarrow> ('e abort + 'd option \<times> 'e option) \<times> ('d, 'r, 'v, 'u) process" where
  "Deployer_eth cfg ext de c =
     (let rawurl = ethRPC cfg in
      if rawurl \<noteq> [] then
        (case ParseRequestURI ext rawurl of
           Inl err \<Rightarrow> (Inl (LogFatal (InvalidRPCUrl rawurl)), c)
         | Inr rpcURL \<Rightarrow>
             (case ContractsRepository cfg ext c of
                (Inl a, c1) \<Rightarrow> (Inl a, c1)
              | (Inr r, c1) \<Rightarrow>
                  (Inr (eth_NewDeployer ext rpcURL r),
                   c1\<lparr>calls := calls c1 @ [NewEthDeployer rpcURL]\<rparr>)))
      else (Inr de, c))"

definition Deployer ::
  "config \<Rightarrow> ('d, 'r, 'u, 'e, 'c, 'p) externals \<Rightarrow> ('d, 'r, 'v, 'u) process
   \<Rightarrow> ('e abort + 'd) \<times> ('d, 'r, 'v, 'u) process" where
  "Deployer cfg ext c =
     (case Deployer_sbit cfg ext c of
        (Inl a, c1) \<Rightarrow> (Inl a, c1)
      | (Inr de, c1) \<Rightarrow>
          (case Deployer_eth cfg ext de c1 of
             (Inl a, c2) \<Rightarrow> (Inl a, c2)
           | (Inr (deployer, err), c2) \<Rightarrow>
               (case deployer of
                  None \<Rightarrow> (Inl (LogFatal UnspecifiedRPC), c2)
                | Some d \<Rightarrow>
                    (case err of
                       Some e \<Rightarrow> (Inl (LogFatal (NewDeployerError e)), c2)
                     | None \<Rightarrow> (Inr d, c2)))))"

section \<open>The contract repository and the deployers (packages contract and deployer)\<close>

text \<open>
  Modelled from the spec: the record of a deployed contract and the address book of package
  contract. The spec: "DeployedContract: name, chain address (chain-specific encoding),
  transaction id, confirmation status (Pending | Confirmed | Failed), block/ordering
  reference once confirmed" and "AddressBook: ordered mapping from contract name to
  DeployedContract".
\<close>

datatype status = Pending | Confirmed | Failed

record DeployedContract =
  Name :: string
  Address :: string
  TransactionID :: string
  Status :: status
  BlockRef :: "nat option"

type_synonym AddressBook = "(string \<times> DeployedContract) list"

text \<open>
  Modelled from the spec: \<^verbatim>\<open>Get(name) -> (DeployedContract, found bool)\<close>, "pure lookup, no
  side effects".
\<close>

definition AddressBook_Get :: "AddressBook \<Rightarrow> string \<Rightarrow> DeployedContract option" where
  "AddressBook_Get book n = map_of book n"

text \<open>
  The values of Go's type \<^verbatim>\<open>error\<close> that the modelled packages produce, after the taxonomy of
  the spec (FileError, RPCError, ProtocolError), with the error of net/url and the failure of
  a transaction.
\<close>

datatype error =
    FileError string
  | URLError string
  | RPCError string
  | ProtocolError string
  | TransactionFailed string

text \<open>
  Modelled from the spec: \<^verbatim>\<open>contract.OpenContractsRepository\<close>, which cli.go calls. The spec:
  "\<^verbatim>\<open>Open(path) -> AddressBook | FileError\<close>: reads a JSON-shaped document keyed by contract
  name; a missing file yields a valid empty book (first-run case); a present-but-unparsable
  file is a fatal FileError (never silently dropped)". The files are a map from paths to
  contents, and \<open>decode\<close> is the JSON decoder, \<open>None\<close> where the text does not parse.
\<close>

definition Open ::
  "(string \<rightharpoonup> string) \<Rightarrow> (string \<Rightarrow> AddressBook option) \<Rightarrow> string \<Rightarrow> error + AddressBook" where
  "Open files decode path =
     (case files path of
        None \<Rightarrow> Inr []
      | Some content \<Rightarrow>
          (case decode content of
             None \<Rightarrow> Inl (FileError path)
           | Some book \<Rightarrow> Inr book))"

text \<open>
  Modelled from the spec: \<^verbatim>\<open>ConfirmContract\<close> of a deployer; deployer.go declares it in the
  interface \<^verbatim>\<open>Deployer\<close>, and the two implementations are in the packages deployer/sbit and
  deployer/eth. The spec: "blocks (or internally polls) until the chain reports the
  transaction as included, mutating \<^verbatim>\<open>deployed.status\<close> to Confirmed or Failed. Must be
  idempotent: calling it again on an already-Confirmed record is a no-op success, not a
  re-submission", a record is "immutable once status = Confirmed or Failed", and RPC errors
  "propagate unwrapped". \<open>chain\<close> is what the backend answers once it has an answer for a
  transaction id; the list of requests is what has been sent to the backend so far. The spec
  leaves open what a call on a Failed record returns: here it reports the failure again and
  changes nothing.
\<close>

datatype report = Included nat | Rejected

datatype request = Submit string | Query string

definition ConfirmContract ::
  "(string \<Rightarrow> error + report) \<Rightarrow> DeployedContract \<times> request list
   \<Rightarrow> error option \<times> DeployedContract \<times> request list" where
  "ConfirmContract chain = (\<lambda>(deployed, sent).
     (case Status deployed of
        Confirmed \<Rightarrow> (None, deployed, sent)
      | Failed \<Rightarrow> (Some (TransactionFailed (TransactionID deployed)), deployed, sent)
      | Pending \<Rightarrow>
          (let sent1 = sent @ [Query (TransactionID deployed)]
           in case chain (TransactionID deployed) of
                Inl err \<Rightarrow> (Some err, deployed, sent1)
              | Inr (Included b) \<Rightarrow>
                  (None, deployed\<lparr>Status := Confirmed, BlockRef := Some b\<rparr>, sent1)
              | Inr Rejected \<Rightarrow>
                  (Some (TransactionFailed (TransactionID deployed)),
                   deployed\<lparr>Status := Failed\<rparr>, sent1))))"

section \<open>A concrete process\<close>

text \<open>
  Concrete configurations, files and packages, on which the theorems below are evaluated.
  \<open>solar_start\<close> is the process as it starts: \<^verbatim>\<open>var solar = &solarCLI{}\<close>, nothing called yet.
\<close>

datatype example_deployer = SbitDeployer string string | EthDeployer string

definition solar_start :: "(example_deployer, AddressBook, unit, string) process" where
  "solar_start =
     \<lparr>depoyer = None, deployerOnce = False, repo = None, repoOnce = False,
      reporter = None, reporterOnce = False, calls = [], formatBytesWithPrefix = False\<rparr>"

definition cfg_sbit :: config where
  "cfg_sbit =
     \<lparr>sbitRPC = ''http://user:pw@localhost:22002'', sbitSenderAddress = ''sQh1'',
      ethRPC = [], solarEnv = ''development'', solarRepo = [],
      solcOptimize = True, solcAllowPaths = []\<rparr>"

definition cfg_eth :: config where
  "cfg_eth = cfg_sbit\<lparr>sbitRPC := [], ethRPC := ''http://localhost:8545''\<rparr>"

definition cfg_both :: config where
  "cfg_both = cfg_sbit\<lparr>ethRPC := ''http://localhost:8545''\<rparr>"

definition cfg_none :: config where
  "cfg_none = cfg_sbit\<lparr>sbitRPC := []\<rparr>"

definition contract_Foo :: DeployedContract where
  "contract_Foo =
     \<lparr>Name = ''Foo'', Address = ''0xABC'', TransactionID = ''7f3a'',
      Status = Confirmed, BlockRef = Some 12\<rparr>"

definition example_decode :: "string \<Rightarrow> AddressBook option" where
  "example_decode content =
     (if content = ''{}'' then Some []
      else if content = ''{Foo}'' then Some [(''Foo'', contract_Foo)]
      else None)"

definition example_parse :: "string \<Rightarrow> error + string" where
  "example_parse rawurl =
     (if take 7 rawurl = ''http://'' then Inr rawurl else Inl (URLError rawurl))"

definition example_ext ::
  "(string \<rightharpoonup> string)
   \<Rightarrow> (example_deployer, AddressBook, string, error, DeployedContract, string) externals" where
  "example_ext files =
     \<lparr>ParseRequestURI = example_parse,
      OpenContractsRepository = Open files example_decode,
      sbit_NewDeployer = (\<lambda>u r sender. (Some (SbitDeployer u sender), None)),
      eth_NewDeployer = (\<lambda>u r. (Some (EthDeployer u), None)),
      sbit_NewRPC = example_parse,
      Get = AddressBook_Get,
      Address_String = Address\<rparr>"

definition files_Foo :: "string \<rightharpoonup> string" where
  "files_Foo = [''solar.development.json'' \<mapsto> ''{Foo}'']"

definition files_broken :: "string \<rightharpoonup> string" where
  "files_broken = [''solar.development.json'' \<mapsto> ''{Foo'']"

definition files_two :: "string \<rightharpoonup> string" where
  "files_two = [''solar.development.json'' \<mapsto> ''{Foo}'', ''my/repo.json'' \<mapsto> ''{}'']"

definition cfg_badurl :: config where
  "cfg_badurl = cfg_both\<lparr>sbitRPC := ''not a url''\<rparr>"

section \<open>Properties\<close>

lemma ContractsRepository_cached:
  "repoOnce c \<Longrightarrow> ContractsRepository cfg ext c = (Inr (repo c), c)"
  by (simp add: ContractsRepository_def)

lemma ContractsRepository_first:
  "\<not> repoOnce c \<Longrightarrow> ContractsRepository cfg ext c = (Inr r, c1) \<Longrightarrow>
   repoOnce c1 \<and> repo c1 = r \<and>
   calls c1 = calls c @ [OpenRepo (if solarRepo cfg \<noteq> [] then solarRepo cfg
                                   else ''solar.'' @ solarEnv cfg @ ''.json'')]"
  by (auto simp: ContractsRepository_def Let_def split: sum.splits)

lemma ContractsRepository_returns:
  "ContractsRepository cfg ext c = (Inr r, c1) \<Longrightarrow> repoOnce c1 \<and> repo c1 = r"
  by (auto simp: ContractsRepository_def Let_def split: sum.splits if_splits)

text \<open>
  C8. The first call of \<^verbatim>\<open>ContractsRepository\<close> opens one file and no other: the file
  \<^verbatim>\<open>solar.<env>.json\<close> of the environment when no repository path is given (\<^verbatim>\<open>*solarRepo\<close> is
  empty), and the file at the given path otherwise. What the call returns and stores is what
  \<^verbatim>\<open>OpenContractsRepository\<close> gives for that file: its repository, or the exit with its error.
\<close>

theorem repository_path_convention:
  assumes "\<not> repoOnce c"
    and "path = (if solarRepo cfg = [] then ''solar.'' @ solarEnv cfg @ ''.json''
                 else solarRepo cfg)"
  shows "ContractsRepository cfg ext c =
           (case OpenContractsRepository ext path of
              Inl err \<Rightarrow>
                (Inl (OsExit 1 (ErrorOpeningRepo path err)),
                 c\<lparr>calls := calls c @ [OpenRepo path]\<rparr>)
            | Inr r \<Rightarrow>
                (Inr (Some r),
                 c\<lparr>repo := Some r, repoOnce := True, calls := calls c @ [OpenRepo path]\<rparr>))"
  using assms
  by (simp add: ContractsRepository_def Let_def split: sum.splits)

theorem repository_path_convention_witness:
  "\<not> repoOnce solar_start \<and>
   ContractsRepository cfg_sbit (example_ext files_two) solar_start =
     (Inr (Some [(''Foo'', contract_Foo)]),
      solar_start\<lparr>repo := Some [(''Foo'', contract_Foo)], repoOnce := True,
                  calls := [OpenRepo ''solar.development.json'']\<rparr>) \<and>
   ContractsRepository (cfg_sbit\<lparr>solarRepo := ''my/repo.json''\<rparr>)
       (example_ext files_two) solar_start =
     (Inr (Some []),
      solar_start\<lparr>repo := Some [], repoOnce := True, calls := [OpenRepo ''my/repo.json'']\<rparr>) \<and>
   ContractsRepository (cfg_sbit\<lparr>solarEnv := ''production''\<rparr>)
       (example_ext files_broken) solar_start =
     (Inr (Some []),
      solar_start\<lparr>repo := Some [], repoOnce := True,
                  calls := [OpenRepo ''solar.production.json'']\<rparr>)"
proof -
  let ?given = "cfg_sbit\<lparr>solarRepo := ''my/repo.json''\<rparr>"
  let ?prod = "cfg_sbit\<lparr>solarEnv := ''production''\<rparr>"
  have fresh: "\<not> repoOnce solar_start" and none: "calls solar_start = []"
    by (simp_all add: solar_start_def)
  have p1: "''solar.development.json'' =
      (if solarRepo cfg_sbit = [] then ''solar.'' @ solarEnv cfg_sbit @ ''.json''
       else solarRepo cfg_sbit)"
    and p2: "''my/repo.json'' =
      (if solarRepo ?given = [] then ''solar.'' @ solarEnv ?given @ ''.json''
       else solarRepo ?given)"
    and p3: "''solar.production.json'' =
      (if solarRepo ?prod = [] then ''solar.'' @ solarEnv ?prod @ ''.json''
       else solarRepo ?prod)"
    by (simp_all add: cfg_sbit_def)
  have o1: "OpenContractsRepository (example_ext files_two) ''solar.development.json'' =
      Inr [(''Foo'', contract_Foo)]"
    and o2: "OpenContractsRepository (example_ext files_two) ''my/repo.json'' = Inr []"
    and o3: "OpenContractsRepository (example_ext files_broken) ''solar.production.json'' = Inr []"
    by (simp_all add: example_ext_def Open_def files_two_def files_broken_def example_decode_def)
  from repository_path_convention [OF fresh p1, of "example_ext files_two"] o1 none
  have 1: "ContractsRepository cfg_sbit (example_ext files_two) solar_start =
     (Inr (Some [(''Foo'', contract_Foo)]),
      solar_start\<lparr>repo := Some [(''Foo'', contract_Foo)], repoOnce := True,
                  calls := [OpenRepo ''solar.development.json'']\<rparr>)"
    by simp
  from repository_path_convention [OF fresh p2, of "example_ext files_two"] o2 none
  have 2: "ContractsRepository ?given (example_ext files_two) solar_start =
     (Inr (Some []),
      solar_start\<lparr>repo := Some [], repoOnce := True, calls := [OpenRepo ''my/repo.json'']\<rparr>)"
    by simp
  from repository_path_convention [OF fresh p3, of "example_ext files_broken"] o3 none
  have 3: "ContractsRepository ?prod (example_ext files_broken) solar_start =
     (Inr (Some []),
      solar_start\<lparr>repo := Some [], repoOnce := True,
                  calls := [OpenRepo ''solar.production.json'']\<rparr>)"
    by simp
  from fresh 1 2 3 show ?thesis by simp
qed

text \<open>
  C6. The repository is opened by the first call of \<^verbatim>\<open>ContractsRepository\<close> only: once a call has
  returned, every later call, whatever the configuration and whatever the files then hold,
  returns the same repository and leaves the process as it is, so it opens nothing. A first
  call that returns has opened exactly one file.
\<close>

theorem repository_cached_after_first_call:
  assumes "ContractsRepository cfg ext c = (Inr r, c1)"
  shows "ContractsRepository cfg' ext' c1 = (Inr r, c1) \<and>
         (\<not> repoOnce c \<longrightarrow> (\<exists>path. calls c1 = calls c @ [OpenRepo path])) \<and>
         (repoOnce c \<longrightarrow> c1 = c)"
proof -
  have ran: "repoOnce c1" and r: "repo c1 = r"
    using ContractsRepository_returns [OF assms] by simp_all
  have again: "ContractsRepository cfg' ext' c1 = (Inr r, c1)"
    using ContractsRepository_cached [OF ran, of cfg' ext'] r by simp
  have first: "\<not> repoOnce c \<longrightarrow> (\<exists>path. calls c1 = calls c @ [OpenRepo path])"
    using assms ContractsRepository_first [of c cfg ext r c1] by blast
  have later: "repoOnce c \<longrightarrow> c1 = c"
    using assms by (auto simp: ContractsRepository_def)
  from again first later show ?thesis by blast
qed

theorem repository_cached_after_first_call_witness:
  "ContractsRepository cfg_sbit (example_ext files_Foo) solar_start =
     (Inr (Some [(''Foo'', contract_Foo)]),
      solar_start\<lparr>repo := Some [(''Foo'', contract_Foo)], repoOnce := True,
                  calls := [OpenRepo ''solar.development.json'']\<rparr>) \<and>
   ContractsRepository cfg_eth (example_ext files_broken)
     (solar_start\<lparr>repo := Some [(''Foo'', contract_Foo)], repoOnce := True,
                  calls := [OpenRepo ''solar.development.json'']\<rparr>) =
     (Inr (Some [(''Foo'', contract_Foo)]),
      solar_start\<lparr>repo := Some [(''Foo'', contract_Foo)], repoOnce := True,
                  calls := [OpenRepo ''solar.development.json'']\<rparr>)"
proof -
  have first: "ContractsRepository cfg_sbit (example_ext files_Foo) solar_start =
     (Inr (Some [(''Foo'', contract_Foo)]),
      solar_start\<lparr>repo := Some [(''Foo'', contract_Foo)], repoOnce := True,
                  calls := [OpenRepo ''solar.development.json'']\<rparr>)"
    by (simp add: ContractsRepository_def solar_start_def cfg_sbit_def example_ext_def
        files_Foo_def Open_def example_decode_def)
  from repository_cached_after_first_call [OF first, of cfg_eth "example_ext files_broken"] first
  show ?thesis by simp
qed

subsection \<open>Selection of the backend\<close>

lemma Deployer_sbit_skipped:
  "sbitRPC cfg = [] \<Longrightarrow> Deployer_sbit cfg ext c = (Inr (None, None), c)"
  by (simp add: Deployer_sbit_def)

lemma Deployer_eth_skipped:
  "ethRPC cfg = [] \<Longrightarrow> Deployer_eth cfg ext de c = (Inr de, c)"
  by (simp add: Deployer_eth_def)

lemma Deployer_sbit_runs:
  assumes "sbitRPC cfg \<noteq> []" and "ParseRequestURI ext (sbitRPC cfg) = Inr us"
    and "ContractsRepository cfg ext c = (Inr r, c1)"
  shows "Deployer_sbit cfg ext c =
           (Inr (sbit_NewDeployer ext us r (sbitSenderAddress cfg)),
            c1\<lparr>calls := calls c1 @ [NewSbitDeployer us (sbitSenderAddress cfg)]\<rparr>)"
  using assms by (simp add: Deployer_sbit_def)

lemma Deployer_eth_runs:
  assumes "ethRPC cfg \<noteq> []" and "ParseRequestURI ext (ethRPC cfg) = Inr ue"
    and "ContractsRepository cfg ext c = (Inr r, c1)"
  shows "Deployer_eth cfg ext de c =
           (Inr (eth_NewDeployer ext ue r), c1\<lparr>calls := calls c1 @ [NewEthDeployer ue]\<rparr>)"
  using assms by (simp add: Deployer_eth_def)

lemma Deployer_sbit_returns:
  assumes "Deployer_sbit cfg ext c = (Inr de, c1)" and "sbitRPC cfg \<noteq> []"
  shows "\<exists>us r c0. ParseRequestURI ext (sbitRPC cfg) = Inr us \<and>
           ContractsRepository cfg ext c = (Inr r, c0) \<and>
           de = sbit_NewDeployer ext us r (sbitSenderAddress cfg) \<and>
           c1 = c0\<lparr>calls := calls c0 @ [NewSbitDeployer us (sbitSenderAddress cfg)]\<rparr>"
  using assms by (auto simp: Deployer_sbit_def Let_def split: sum.splits prod.splits)

lemma Deployer_eth_returns:
  assumes "Deployer_eth cfg ext de0 c = (Inr de, c1)" and "ethRPC cfg \<noteq> []"
  shows "\<exists>ue r c0. ParseRequestURI ext (ethRPC cfg) = Inr ue \<and>
           ContractsRepository cfg ext c = (Inr r, c0) \<and>
           de = eth_NewDeployer ext ue r \<and>
           c1 = c0\<lparr>calls := calls c0 @ [NewEthDeployer ue]\<rparr>"
  using assms by (auto simp: Deployer_eth_def Let_def split: sum.splits prod.splits)

lemma Deployer_returns:
  assumes "Deployer cfg ext c = (Inr d, c2)"
  shows "\<exists>de c1. Deployer_sbit cfg ext c = (Inr de, c1) \<and>
           Deployer_eth cfg ext de c1 = (Inr (Some d, None), c2)"
  using assms
  by (auto simp: Deployer_def split: sum.splits prod.splits option.splits)

lemma Deployer_both_endpoints:
  assumes "sbitRPC cfg \<noteq> []" and "ethRPC cfg \<noteq> []"
    and "ParseRequestURI ext (sbitRPC cfg) = Inr us"
    and "ParseRequestURI ext (ethRPC cfg) = Inr ue"
    and "ContractsRepository cfg ext c = (Inr r, c1)"
    and "eth_NewDeployer ext ue r = (Some d, None)"
  shows "Deployer cfg ext c =
           (Inr d, c1\<lparr>calls := calls c1 @ [NewSbitDeployer us (sbitSenderAddress cfg),
                                           NewEthDeployer ue]\<rparr>)"
proof -
  let ?c1' = "c1\<lparr>calls := calls c1 @ [NewSbitDeployer us (sbitSenderAddress cfg)]\<rparr>"
  have ran: "repoOnce c1" and r: "repo c1 = r"
    using ContractsRepository_returns [OF assms(5)] by simp_all
  have "repoOnce ?c1'" using ran by simp
  from ContractsRepository_cached [OF this, of cfg ext] r
  have again: "ContractsRepository cfg ext ?c1' = (Inr r, ?c1')" by simp
  have sbit: "Deployer_sbit cfg ext c =
      (Inr (sbit_NewDeployer ext us r (sbitSenderAddress cfg)), ?c1')"
    by (rule Deployer_sbit_runs [OF assms(1) assms(3) assms(5)])
  have eth: "Deployer_eth cfg ext (sbit_NewDeployer ext us r (sbitSenderAddress cfg)) ?c1' =
      (Inr (eth_NewDeployer ext ue r), ?c1'\<lparr>calls := calls ?c1' @ [NewEthDeployer ue]\<rparr>)"
    by (rule Deployer_eth_runs [OF assms(2) assms(4) again])
  show ?thesis
    by (simp add: Deployer_def sbit eth assms(6))
qed

text \<open>
  C1, as the code has it. With neither endpoint set, \<^verbatim>\<open>RPCPlatform\<close> and \<^verbatim>\<open>Deployer\<close> both stop
  the process with \<^verbatim>\<open>errorUnspecifiedRPC\<close>, \<^verbatim>\<open>Deployer\<close> before it has opened the repository or
  constructed anything. With at least one endpoint set, \<^verbatim>\<open>RPCPlatform\<close> reports no error and
  returns a platform: there is no check for both being set.
\<close>

theorem config_error_when_no_endpoint:
  fixes ext :: "('d, 'r, 'u, 'e, 'c, 'p) externals"
  shows
  "(sbitRPC cfg = [] \<and> ethRPC cfg = [] \<longrightarrow>
      (RPCPlatform cfg :: 'e abort + RPCPlatform) = Inl (LogFatal UnspecifiedRPC) \<and>
      Deployer cfg ext c = (Inl (LogFatal UnspecifiedRPC), c)) \<and>
   (sbitRPC cfg \<noteq> [] \<or> ethRPC cfg \<noteq> [] \<longrightarrow>
      (\<exists>platform. (RPCPlatform cfg :: 'e abort + RPCPlatform) = Inr platform))"
  by (auto simp: RPCPlatform_def Deployer_def Deployer_sbit_skipped Deployer_eth_skipped)

theorem config_error_when_no_endpoint_witness:
  "(sbitRPC cfg_none = [] \<and> ethRPC cfg_none = []) \<and>
   (RPCPlatform cfg_none :: error abort + RPCPlatform) = Inl (LogFatal UnspecifiedRPC) \<and>
   Deployer cfg_none (example_ext files_Foo) solar_start =
     (Inl (LogFatal UnspecifiedRPC), solar_start) \<and>
   ethRPC cfg_eth \<noteq> [] \<and>
   (\<exists>platform. (RPCPlatform cfg_eth :: error abort + RPCPlatform) = Inr platform)"
  using config_error_when_no_endpoint [of cfg_none "example_ext files_Foo" solar_start]
    config_error_when_no_endpoint [of cfg_eth "example_ext files_Foo" solar_start]
  by (simp add: cfg_none_def cfg_eth_def cfg_sbit_def)

text \<open>
  The claim C1 as the spec states it fails where both endpoints are set: \<^verbatim>\<open>RPCPlatform\<close> returns
  a platform and \<^verbatim>\<open>Deployer\<close> returns a deployer, neither reports a configuration error.
\<close>

theorem both_endpoints_no_config_error:
  "(RPCPlatform cfg_both :: error abort + RPCPlatform) = Inr RPCSbit \<and>
   fst (Deployer cfg_both (example_ext files_Foo) solar_start) =
     Inr (EthDeployer ''http://localhost:8545'')"
  by (simp add: RPCPlatform_def Deployer_def Deployer_sbit_def Deployer_eth_def
      ContractsRepository_def cfg_both_def cfg_sbit_def example_ext_def example_parse_def
      solar_start_def files_Foo_def Open_def example_decode_def Let_def)

text \<open>
  The claim C10 as it is stated fails: it speaks of every configuration with both endpoints
  set, and where the URL of the UTXO chain does not parse, \<^verbatim>\<open>Deployer\<close> stops the process with
  "Invalid RPC url" in its first block and returns no deployer at all.
\<close>

theorem both_endpoints_bad_url_no_deployer:
  "sbitRPC cfg_badurl \<noteq> [] \<and> ethRPC cfg_badurl \<noteq> [] \<and>
   Deployer cfg_badurl (example_ext files_Foo) solar_start =
     (Inl (LogFatal (InvalidRPCUrl ''not a url'')), solar_start)"
  by (simp add: Deployer_def Deployer_sbit_def cfg_badurl_def cfg_both_def cfg_sbit_def
      example_ext_def example_parse_def Let_def)

text \<open>
  C10, as the code has it. With both endpoints set, \<^verbatim>\<open>RPCPlatform\<close> returns \<^verbatim>\<open>RPCSbit\<close>, while
  \<^verbatim>\<open>Deployer\<close> never returns the deployer of the UTXO chain: a deployer that it returns is the
  one that \<^verbatim>\<open>eth.NewDeployer\<close> made, after the constructor of the UTXO chain has run and its
  result has been overwritten. \<^verbatim>\<open>Deployer\<close> does return it whenever both URLs parse, the
  repository opens and \<^verbatim>\<open>eth.NewDeployer\<close> gives a deployer and no error, whatever
  \<^verbatim>\<open>sbit.NewDeployer\<close> gave.
\<close>

theorem both_endpoints_selection_disagrees:
  fixes ext :: "('d, 'r, 'u, 'e, 'c, 'p) externals"
  assumes "sbitRPC cfg \<noteq> []" and "ethRPC cfg \<noteq> []"
  shows "(RPCPlatform cfg :: 'e abort + RPCPlatform) = Inr RPCSbit \<and>
    (\<forall>d c2. Deployer cfg ext c = (Inr d, c2) \<longrightarrow>
       (\<exists>us ue r cs. ParseRequestURI ext (ethRPC cfg) = Inr ue \<and>
          eth_NewDeployer ext ue r = (Some d, None) \<and>
          calls c2 = cs @ [NewSbitDeployer us (sbitSenderAddress cfg), NewEthDeployer ue])) \<and>
    (\<forall>us ue r c1 d.
       ParseRequestURI ext (sbitRPC cfg) = Inr us \<and>
       ParseRequestURI ext (ethRPC cfg) = Inr ue \<and>
       ContractsRepository cfg ext c = (Inr r, c1) \<and>
       eth_NewDeployer ext ue r = (Some d, None) \<longrightarrow>
       fst (Deployer cfg ext c) = Inr d)"
proof (intro conjI allI impI)
  show "(RPCPlatform cfg :: 'e abort + RPCPlatform) = Inr RPCSbit"
    using assms by (simp add: RPCPlatform_def)
next
  fix d c2
  assume ret: "Deployer cfg ext c = (Inr d, c2)"
  from Deployer_returns [OF ret] obtain de c1
    where sbit: "Deployer_sbit cfg ext c = (Inr de, c1)"
      and eth: "Deployer_eth cfg ext de c1 = (Inr (Some d, None), c2)"
    by blast
  from Deployer_sbit_returns [OF sbit assms(1)] obtain us r0 c0
    where c1: "c1 = c0\<lparr>calls := calls c0 @ [NewSbitDeployer us (sbitSenderAddress cfg)]\<rparr>"
      and first: "ContractsRepository cfg ext c = (Inr r0, c0)"
    by blast
  have "repoOnce c1"
    using ContractsRepository_returns [OF first] c1 by simp
  then have again: "ContractsRepository cfg ext c1 = (Inr (repo c1), c1)"
    by (rule ContractsRepository_cached)
  from Deployer_eth_returns [OF eth assms(2)] obtain ue r c0'
    where ue: "ParseRequestURI ext (ethRPC cfg) = Inr ue"
      and rep: "ContractsRepository cfg ext c1 = (Inr r, c0')"
      and made: "(Some d, None) = eth_NewDeployer ext ue r"
      and c2: "c2 = c0'\<lparr>calls := calls c0' @ [NewEthDeployer ue]\<rparr>"
    by blast
  from rep again have "c0' = c1" by simp
  with c1 c2 have "calls c2 =
      calls c0 @ [NewSbitDeployer us (sbitSenderAddress cfg), NewEthDeployer ue]"
    by simp
  with ue made
  show "\<exists>us ue r cs. ParseRequestURI ext (ethRPC cfg) = Inr ue \<and>
          eth_NewDeployer ext ue r = (Some d, None) \<and>
          calls c2 = cs @ [NewSbitDeployer us (sbitSenderAddress cfg), NewEthDeployer ue]"
    by metis
next
  fix us ue r c1 d
  assume h: "ParseRequestURI ext (sbitRPC cfg) = Inr us \<and>
       ParseRequestURI ext (ethRPC cfg) = Inr ue \<and>
       ContractsRepository cfg ext c = (Inr r, c1) \<and>
       eth_NewDeployer ext ue r = (Some d, None)"
  then show "fst (Deployer cfg ext c) = Inr d"
    using Deployer_both_endpoints [OF assms, of ext us ue c r c1 d] by simp
qed

theorem both_endpoints_selection_disagrees_witness:
  "sbitRPC cfg_both \<noteq> [] \<and> ethRPC cfg_both \<noteq> [] \<and>
   (RPCPlatform cfg_both :: error abort + RPCPlatform) = Inr RPCSbit \<and>
   fst (Deployer cfg_both (example_ext files_Foo) solar_start) =
     Inr (EthDeployer ''http://localhost:8545'') \<and>
   calls (snd (Deployer cfg_both (example_ext files_Foo) solar_start)) =
     [OpenRepo ''solar.development.json'',
      NewSbitDeployer ''http://user:pw@localhost:22002'' ''sQh1'',
      NewEthDeployer ''http://localhost:8545'']"
proof -
  let ?ext = "example_ext files_Foo"
  let ?c1 = "solar_start\<lparr>repo := Some [(''Foo'', contract_Foo)], repoOnce := True,
                  calls := [OpenRepo ''solar.development.json'']\<rparr>"
  have s: "sbitRPC cfg_both \<noteq> []" and e: "ethRPC cfg_both \<noteq> []"
    by (simp_all add: cfg_both_def cfg_sbit_def)
  have us: "ParseRequestURI ?ext (sbitRPC cfg_both) = Inr ''http://user:pw@localhost:22002''"
    and ue: "ParseRequestURI ?ext (ethRPC cfg_both) = Inr ''http://localhost:8545''"
    by (simp_all add: cfg_both_def cfg_sbit_def example_ext_def example_parse_def)
  have opened: "ContractsRepository cfg_both ?ext solar_start =
      (Inr (Some [(''Foo'', contract_Foo)]), ?c1)"
    by (simp add: ContractsRepository_def solar_start_def cfg_both_def cfg_sbit_def
        example_ext_def files_Foo_def Open_def example_decode_def)
  have made: "eth_NewDeployer ?ext ''http://localhost:8545'' (Some [(''Foo'', contract_Foo)]) =
      (Some (EthDeployer ''http://localhost:8545''), None)"
    by (simp add: example_ext_def)
  note both = both_endpoints_selection_disagrees [OF s e, of ?ext solar_start]
  from both have platform: "(RPCPlatform cfg_both :: error abort + RPCPlatform) = Inr RPCSbit"
    by blast
  from both us ue opened made
  have ret: "fst (Deployer cfg_both ?ext solar_start) = Inr (EthDeployer ''http://localhost:8545'')"
    by blast
  have "calls (snd (Deployer cfg_both ?ext solar_start)) =
     [OpenRepo ''solar.development.json'',
      NewSbitDeployer ''http://user:pw@localhost:22002'' ''sQh1'',
      NewEthDeployer ''http://localhost:8545'']"
    by (simp add: Deployer_def Deployer_sbit_def Deployer_eth_def
      ContractsRepository_def cfg_both_def cfg_sbit_def example_ext_def example_parse_def
      solar_start_def files_Foo_def Open_def example_decode_def Let_def)
  with s e platform ret show ?thesis by blast
qed

subsection \<open>What is cached and what is not\<close>










subsection \<open>Output format of addresses\<close>

text \<open>
  C5. Let exactly one endpoint be set and let the output mode be off, as it is before
  \<^verbatim>\<open>ConfigureBytesOutputFormat\<close> has run. Then after \<^verbatim>\<open>ConfigureBytesOutputFormat\<close> the mode
  "with prefix" is on exactly when the platform is the account chain, so it is on when the
  account-chain endpoint is the one set, and off when the UTXO-chain endpoint is the one set.
  Nothing but the mode changes.
\<close>

theorem prefix_mode_follows_endpoint:
  fixes c :: "('d, 'r, 'v, 'u) process"
  assumes "\<not> formatBytesWithPrefix c" and "(sbitRPC cfg = []) \<noteq> (ethRPC cfg = [])"
  shows "(formatBytesWithPrefix (ConfigureBytesOutputFormat cfg c) \<longleftrightarrow>
            (RPCPlatform cfg :: 'e abort + RPCPlatform) = Inr RPCEthereum) \<and>
         (formatBytesWithPrefix (ConfigureBytesOutputFormat cfg c) \<longleftrightarrow> ethRPC cfg \<noteq> []) \<and>
         (\<not> formatBytesWithPrefix (ConfigureBytesOutputFormat cfg c) \<longleftrightarrow> sbitRPC cfg \<noteq> []) \<and>
         ConfigureBytesOutputFormat cfg c =
           c\<lparr>formatBytesWithPrefix := formatBytesWithPrefix (ConfigureBytesOutputFormat cfg c)\<rparr>"
  using assms
  by (auto simp: ConfigureBytesOutputFormat_def SetFormatBytesWithPrefix_def RPCPlatform_def)

theorem prefix_mode_follows_endpoint_witness:
  "\<not> formatBytesWithPrefix solar_start \<and>
   (sbitRPC cfg_eth = []) \<noteq> (ethRPC cfg_eth = []) \<and>
   (sbitRPC cfg_sbit = []) \<noteq> (ethRPC cfg_sbit = []) \<and>
   formatBytesWithPrefix (ConfigureBytesOutputFormat cfg_eth solar_start) \<and>
   (RPCPlatform cfg_eth :: error abort + RPCPlatform) = Inr RPCEthereum \<and>
   \<not> formatBytesWithPrefix (ConfigureBytesOutputFormat cfg_sbit solar_start) \<and>
   (RPCPlatform cfg_sbit :: error abort + RPCPlatform) \<noteq> Inr RPCEthereum"
proof -
  have start: "\<not> formatBytesWithPrefix solar_start"
    by (simp add: solar_start_def)
  have eth: "(sbitRPC cfg_eth = []) \<noteq> (ethRPC cfg_eth = [])"
    and sbit: "(sbitRPC cfg_sbit = []) \<noteq> (ethRPC cfg_sbit = [])"
    and set: "ethRPC cfg_eth \<noteq> []" "sbitRPC cfg_sbit \<noteq> []"
    by (simp_all add: cfg_eth_def cfg_sbit_def)
  from prefix_mode_follows_endpoint [OF start eth, where ?'e = error]
    prefix_mode_follows_endpoint [OF start sbit, where ?'e = error] start eth sbit set
  show ?thesis by blast
qed

subsection \<open>Expansion of placeholders\<close>

lemma not_ident_dollar: "\<not> isIdentChar CHR ''$''"
  and not_ident_open: "\<not> isIdentChar CHR ''{''"
  and not_ident_close: "\<not> isIdentChar CHR ''}''"
  by (simp_all add: isIdentChar_def)

lemma takeWhile_ident_name:
  assumes "\<forall>ch\<in>set name. isIdentChar ch" and "rest = [] \<or> \<not> isIdentChar (hd rest)"
  shows "takeWhile isIdentChar (name @ rest) = name"
    and "dropWhile isIdentChar (name @ rest) = rest"
proof -
  from assms(2) have t: "takeWhile isIdentChar rest = []" and d: "dropWhile isIdentChar rest = rest"
    by (cases rest; simp)+
  from assms(1) t show "takeWhile isIdentChar (name @ rest) = name"
    by (simp add: takeWhile_append2)
  from assms(1) d show "dropWhile isIdentChar (name @ rest) = rest"
    by (simp add: dropWhile_append2)
qed

lemma scan_dollar_name:
  assumes "name \<noteq> []" and "\<forall>ch\<in>set name. isIdentChar ch"
    and "post = [] \<or> \<not> isIdentChar (hd post)"
  shows "scan (CHR ''$'' # name @ post) = Ref name # scan post"
proof -
  from assms(1,2) have "isIdentChar (hd name)" by (cases name) simp_all
  with not_ident_open have "hd name \<noteq> CHR ''{''" by metis
  with assms(1) have nobrace: "hd (name @ post) \<noteq> CHR ''{''" by simp
  from takeWhile_ident_name [OF assms(2,3)] assms(1) nobrace
  show ?thesis by (simp add: Let_def)
qed

lemma scan_dollar_brace:
  assumes "name \<noteq> []" and "\<forall>ch\<in>set name. isIdentChar ch"
  shows "scan (CHR ''$'' # CHR ''{'' # name @ CHR ''}'' # post) = Ref name # scan post"
proof -
  have "CHR ''}'' # post = [] \<or> \<not> isIdentChar (hd (CHR ''}'' # post))"
    by (simp add: not_ident_close)
  from takeWhile_ident_name [OF assms(2) this] assms(1)
  show ?thesis by (simp add: Let_def)
qed

text \<open>A \<^verbatim>\<open>$\<close> always starts a new piece: what comes before it is scanned on its own.\<close>

lemma scan_at_dollar: "scan (pre @ CHR ''$'' # t) = scan pre @ scan (CHR ''$'' # t)"
proof (induction pre rule: scan.induct)
  case 1
  show ?case by simp
next
  case (2 c cs)
  let ?t = "CHR ''$'' # t"
  show ?case
  proof (cases "c \<noteq> CHR ''$''")
    case True
    with "2.IH"(1) show ?thesis by simp
  next
    case dollar: False
    show ?thesis
    proof (cases "cs = []")
      case True
      with dollar show ?thesis by (simp add: not_ident_dollar Let_def)
    next
      case ne: False
      have tk: "takeWhile isIdentChar (cs @ ?t) = takeWhile isIdentChar cs"
        by (simp add: takeWhile_tail not_ident_dollar)
      have dr: "dropWhile isIdentChar (cs @ ?t) = dropWhile isIdentChar cs @ ?t"
        by (simp add: dropWhile_append3 not_ident_dollar)
      have tk': "takeWhile isIdentChar (tl cs @ ?t) = takeWhile isIdentChar (tl cs)"
        by (simp add: takeWhile_tail not_ident_dollar)
      have dr': "dropWhile isIdentChar (tl cs @ ?t) = dropWhile isIdentChar (tl cs) @ ?t"
        by (simp add: dropWhile_append3 not_ident_dollar)
      show ?thesis
      proof (cases "hd cs = CHR ''{''")
        case brace: True
        let ?name = "takeWhile isIdentChar (tl cs)"
        let ?after = "dropWhile isIdentChar (tl cs)"
        show ?thesis
        proof (cases "?name \<noteq> [] \<and> ?after \<noteq> [] \<and> hd ?after = CHR ''}''")
          case tok: True
          then have ih: "scan (tl ?after @ ?t) = scan (tl ?after) @ scan ?t"
            using "2.IH"(2) dollar ne brace by simp
          have "scan ((c # cs) @ ?t) = Ref ?name # scan (tl ?after @ ?t)"
            using dollar ne brace tok tk' dr' by (simp add: Let_def)
          moreover have "scan (c # cs) = Ref ?name # scan (tl ?after)"
            using dollar ne brace tok by (simp add: Let_def)
          ultimately show ?thesis using ih by simp
        next
          case notok: False
          then have ih: "scan (cs @ ?t) = scan cs @ scan ?t"
            using "2.IH"(3) dollar ne brace by simp
          have "\<not> (?name \<noteq> [] \<and> ?after @ ?t \<noteq> [] \<and> hd (?after @ ?t) = CHR ''}'')"
          proof (cases "?after = []")
            case True
            show ?thesis unfolding True by simp
          next
            case False
            then have "hd (?after @ ?t) = hd ?after" by (rule hd_append2)
            with notok False show ?thesis by metis
          qed
          then have "scan ((c # cs) @ ?t) = Text c # scan (cs @ ?t)"
            using dollar ne brace tk' dr' by (simp add: Let_def)
          moreover have "scan (c # cs) = Text c # scan cs"
            using dollar ne brace notok by (simp add: Let_def)
          ultimately show ?thesis using ih by simp
        qed
      next
        case nobrace: False
        let ?name = "takeWhile isIdentChar cs"
        show ?thesis
        proof (cases "?name \<noteq> []")
          case True
          then have ih: "scan (dropWhile isIdentChar cs @ ?t) =
              scan (dropWhile isIdentChar cs) @ scan ?t"
            using "2.IH"(4) dollar ne nobrace by simp
          have "scan ((c # cs) @ ?t) = Ref ?name # scan (dropWhile isIdentChar cs @ ?t)"
            using dollar ne nobrace True tk dr by (simp add: Let_def)
          moreover have "scan (c # cs) = Ref ?name # scan (dropWhile isIdentChar cs)"
            using dollar ne nobrace True by (simp add: Let_def)
          ultimately show ?thesis using ih by simp
        next
          case False
          then have ih: "scan (cs @ ?t) = scan cs @ scan ?t"
            using "2.IH"(5) dollar ne nobrace by simp
          have "scan ((c # cs) @ ?t) = Text c # scan (cs @ ?t)"
            using dollar ne nobrace False tk dr by (simp add: Let_def)
          moreover have "scan (c # cs) = Text c # scan cs"
            using dollar ne nobrace False by (simp add: Let_def)
          ultimately show ?thesis using ih by simp
        qed
      qed
    qed
  qed
qed

lemma subst_append:
  "subst (ps @ qs) f =
     (case subst ps f of
        Inl e \<Rightarrow> Inl e
      | Inr s \<Rightarrow> (case subst qs f of Inl e \<Rightarrow> Inl e | Inr t \<Rightarrow> Inr (s @ t)))"
  by (induction ps f rule: subst.induct) (auto split: sum.splits)

lemma subst_fails:
  "Ref n \<in> set ps \<Longrightarrow> f n = Inl e \<Longrightarrow>
   \<exists>k e'. Ref k \<in> set ps \<and> f k = Inl e' \<and> subst ps f = Inl e'"
  by (induction ps f rule: subst.induct) (auto split: sum.splits)

lemma Expand_dollar_name:
  assumes "name \<noteq> []" and "\<forall>ch\<in>set name. isIdentChar ch"
    and "post = [] \<or> \<not> isIdentChar (hd post)"
  shows "Expand (pre @ ''$'' @ name @ post) f =
     (case Expand pre f of
        Inl e \<Rightarrow> Inl e
      | Inr s \<Rightarrow>
          (case f name of
             Inl e \<Rightarrow> Inl e
           | Inr v \<Rightarrow> (case Expand post f of Inl e \<Rightarrow> Inl e | Inr t \<Rightarrow> Inr (s @ v @ t))))"
  using scan_at_dollar [of pre "name @ post"] scan_dollar_name [OF assms]
  by (simp add: Expand_def subst_append split: sum.splits)

lemma Expand_dollar_brace:
  assumes "name \<noteq> []" and "\<forall>ch\<in>set name. isIdentChar ch"
  shows "Expand (pre @ ''${'' @ name @ ''}'' @ post) f =
     (case Expand pre f of
        Inl e \<Rightarrow> Inl e
      | Inr s \<Rightarrow>
          (case f name of
             Inl e \<Rightarrow> Inl e
           | Inr v \<Rightarrow> (case Expand post f of Inl e \<Rightarrow> Inl e | Inr t \<Rightarrow> Inr (s @ v @ t))))"
  using scan_at_dollar [of pre "CHR ''{'' # name @ CHR ''}'' # post"]
    scan_dollar_brace [OF assms, of post]
  by (simp add: Expand_def subst_append split: sum.splits)

text \<open>
  C4. A token \<^verbatim>\<open>$Name\<close> (followed by the end of the text or by a character that is not an
  identifier character) and a token \<^verbatim>\<open>${Name}\<close>, anywhere in a text, are replaced with what the
  resolver gives for the name, between the expansions of the text before and after the token;
  where the resolver fails for the name, the expansion fails with the resolver's error. The
  resolver of \<^verbatim>\<open>ExpandJSONParams\<close> fails for a name that the repository does not hold with the
  error "Invalid address expansion" (the spec's UnknownReference).
\<close>

theorem placeholders_replaced_by_resolver:
  assumes "name \<noteq> []" and "\<forall>ch\<in>set name. isIdentChar ch"
    and "Expand pre resolver = Inr pre'" and "Expand post resolver = Inr post'"
  shows "(post = [] \<or> \<not> isIdentChar (hd post) \<longrightarrow>
            Expand (pre @ ''$'' @ name @ post) resolver =
              (case resolver name of Inl e \<Rightarrow> Inl e | Inr v \<Rightarrow> Inr (pre' @ v @ post'))) \<and>
         Expand (pre @ ''${'' @ name @ ''}'' @ post) resolver =
           (case resolver name of Inl e \<Rightarrow> Inl e | Inr v \<Rightarrow> Inr (pre' @ v @ post'))"
proof (intro conjI impI)
  assume "post = [] \<or> \<not> isIdentChar (hd post)"
  from Expand_dollar_name [OF assms(1,2) this, of pre resolver] assms(3,4)
  show "Expand (pre @ ''$'' @ name @ post) resolver =
      (case resolver name of Inl e \<Rightarrow> Inl e | Inr v \<Rightarrow> Inr (pre' @ v @ post'))"
    by (simp split: sum.splits)
next
  from Expand_dollar_brace [OF assms(1,2), of pre post resolver] assms(3,4)
  show "Expand (pre @ ''${'' @ name @ ''}'' @ post) resolver =
      (case resolver name of Inl e \<Rightarrow> Inl e | Inr v \<Rightarrow> Inr (pre' @ v @ post'))"
    by (simp split: sum.splits)
qed

theorem placeholders_replaced_by_resolver_witness:
  "Expand ''addr=$Foo'' (resolveAddress (example_ext files_Foo) (Some [(''Foo'', contract_Foo)])) =
     Inr ''addr=0xABC'' \<and>
   Expand ''addr=${Foo}'' (resolveAddress (example_ext files_Foo) (Some [(''Foo'', contract_Foo)])) =
     Inr ''addr=0xABC'' \<and>
   Expand ''addr=$Bar'' (resolveAddress (example_ext files_Foo) (Some [(''Foo'', contract_Foo)])) =
     Inl (Panicked (InvalidAddressExpansion ''Bar''))"
proof -
  let ?f = "resolveAddress (example_ext files_Foo) (Some [(''Foo'', contract_Foo)])"
  have foo: "?f ''Foo'' = Inr ''0xABC''" and bar: "?f ''Bar'' = Inl (Panicked (InvalidAddressExpansion ''Bar''))"
    by (simp_all add: resolveAddress_def example_ext_def AddressBook_Get_def contract_Foo_def)
  have pre: "Expand ''addr='' ?f = Inr ''addr=''" and post: "Expand [] ?f = Inr []"
    by (simp_all add: Expand_def)
  have idF: "''Foo'' \<noteq> [] \<and> (\<forall>ch\<in>set ''Foo''. isIdentChar ch)"
    and idB: "''Bar'' \<noteq> [] \<and> (\<forall>ch\<in>set ''Bar''. isIdentChar ch)"
    by (simp_all add: isIdentChar_def)
  from placeholders_replaced_by_resolver
    [where name = "''Foo''" and pre = "''addr=''" and resolver = ?f and pre' = "''addr=''"
       and post = "[]" and post' = "[]"]
    idF pre post foo
  have 1: "Expand ''addr=$Foo'' ?f = Inr ''addr=0xABC''"
    and 2: "Expand ''addr=${Foo}'' ?f = Inr ''addr=0xABC''"
    by simp_all
  from placeholders_replaced_by_resolver
    [where name = "''Bar''" and pre = "''addr=''" and resolver = ?f and pre' = "''addr=''"
       and post = "[]" and post' = "[]"]
    idB pre post bar
  have 3: "Expand ''addr=$Bar'' ?f = Inl (Panicked (InvalidAddressExpansion ''Bar''))"
    by simp
  from 1 2 3 show ?thesis by simp
qed

text \<open>
  C2, as the code has it. Let the repository be open, and let the text hold a token \<^verbatim>\<open>$Name\<close>
  or \<^verbatim>\<open>${Name}\<close> whose name the repository does not hold. Then \<^verbatim>\<open>ExpandJSONParams\<close> does not
  return: it panics with "Invalid address expansion" for a name of the text that the
  repository does not hold, so no expanded text exists that could be deployed. The error is
  the value of a panic, not a result of the function.
\<close>

theorem unbound_placeholder_panics:
  assumes "ContractsRepository cfg ext c = (Inr (Some r), c1)"
    and "name \<noteq> []" and "\<forall>ch\<in>set name. isIdentChar ch" and "Get ext r name = None"
    and "text = pre @ ''$'' @ name @ post \<and> (post = [] \<or> \<not> isIdentChar (hd post)) \<or>
         text = pre @ ''${'' @ name @ ''}'' @ post"
  shows "\<exists>key. ExpandJSONParams cfg ext c text =
                 (Inl (Panicked (InvalidAddressExpansion key)), c1) \<and>
               Get ext r key = None \<and> Ref key \<in> set (scan text)"
proof -
  let ?f = "resolveAddress ext (Some r)"
  have found: "Ref name \<in> set (scan text)"
  proof -
    from assms(5) consider
      (plain) "text = pre @ ''$'' @ name @ post" "post = [] \<or> \<not> isIdentChar (hd post)"
      | (brace) "text = pre @ ''${'' @ name @ ''}'' @ post"
      by blast
    then show ?thesis
    proof cases
      case plain
      from scan_at_dollar [of pre "name @ post"] scan_dollar_name [OF assms(2,3) plain(2)]
      show ?thesis unfolding plain(1) by simp
    next
      case brace
      from scan_at_dollar [of pre "CHR ''{'' # name @ CHR ''}'' # post"]
        scan_dollar_brace [OF assms(2,3), of post]
      show ?thesis unfolding brace by simp
    qed
  qed
  have "?f name = Inl (Panicked (InvalidAddressExpansion name))"
    using assms(4) by (simp add: resolveAddress_def)
  from subst_fails [of name "scan text" ?f, OF found this] obtain k e'
    where k: "Ref k \<in> set (scan text)" and fk: "?f k = Inl e'"
      and res: "subst (scan text) ?f = Inl e'"
    by blast
  from fk have "e' = Panicked (InvalidAddressExpansion k) \<and> Get ext r k = None"
    by (auto simp: resolveAddress_def split: option.splits)
  with res k assms(1) show ?thesis
    by (auto simp: ExpandJSONParams_def Expand_def)
qed

theorem unbound_placeholder_panics_witness:
  "ExpandJSONParams cfg_sbit (example_ext files_Foo) solar_start ''[$Foo, ${Bar}]'' =
     (Inl (Panicked (InvalidAddressExpansion ''Bar'')),
      solar_start\<lparr>repo := Some [(''Foo'', contract_Foo)], repoOnce := True,
                  calls := [OpenRepo ''solar.development.json'']\<rparr>)"
proof -
  let ?ext = "example_ext files_Foo"
  let ?c1 = "solar_start\<lparr>repo := Some [(''Foo'', contract_Foo)], repoOnce := True,
                  calls := [OpenRepo ''solar.development.json'']\<rparr>"
  have opened: "ContractsRepository cfg_sbit ?ext solar_start =
      (Inr (Some [(''Foo'', contract_Foo)]), ?c1)"
    by (simp add: ContractsRepository_def solar_start_def cfg_sbit_def example_ext_def
        files_Foo_def Open_def example_decode_def)
  have name: "''Bar'' \<noteq> []" "\<forall>ch\<in>set ''Bar''. isIdentChar ch"
    by (simp_all add: isIdentChar_def)
  have unbound: "Get ?ext [(''Foo'', contract_Foo)] ''Bar'' = None"
    by (simp add: example_ext_def AddressBook_Get_def)
  have shape: "''[$Foo, ${Bar}]'' = ''[$Foo, '' @ ''$'' @ ''Bar'' @ '']'' \<and>
                 ('']'' = [] \<or> \<not> isIdentChar (hd '']'')) \<or>
               ''[$Foo, ${Bar}]'' = ''[$Foo, '' @ ''${'' @ ''Bar'' @ ''}'' @ '']''"
    by simp
  from unbound_placeholder_panics [OF opened name unbound shape] obtain key
    where res: "ExpandJSONParams cfg_sbit ?ext solar_start ''[$Foo, ${Bar}]'' =
        (Inl (Panicked (InvalidAddressExpansion key)), ?c1)"
      and key: "Get ?ext [(''Foo'', contract_Foo)] key = None"
      and occurs: "Ref key \<in> set (scan ''[$Foo, ${Bar}]'')"
    by blast
  have "scan ''[$Foo, ${Bar}]'' =
      [Text CHR ''['', Ref ''Foo'', Text CHR '','', Text CHR '' '', Ref ''Bar'', Text CHR '']'']"
    by (simp add: isIdentChar_def Let_def)
  with occurs have "key = ''Foo'' \<or> key = ''Bar''" by simp
  moreover have "Get ?ext [(''Foo'', contract_Foo)] ''Foo'' \<noteq> None"
    by (simp add: example_ext_def AddressBook_Get_def)
  ultimately have "key = ''Bar''" using key by metis
  with res show ?thesis by simp
qed

text \<open>
  The claim C2 as the spec states it fails: for a text with a name that the repository does
  not hold, the result of \<^verbatim>\<open>ExpandJSONParams\<close> is a panic, not a returned error value.
\<close>

theorem unbound_placeholder_is_not_returned:
  "fst (ExpandJSONParams cfg_sbit (example_ext files_Foo) solar_start ''addr=$Bar'') =
     Inl (Panicked (InvalidAddressExpansion ''Bar'')) \<and>
   \<not> isl (fst (ExpandJSONParams cfg_sbit (example_ext files_Foo) solar_start ''addr=$Foo''))"
  by (simp add: ExpandJSONParams_def Expand_def resolveAddress_def ContractsRepository_def
      solar_start_def cfg_sbit_def example_ext_def files_Foo_def Open_def example_decode_def
      AddressBook_Get_def isIdentChar_def Let_def)

subsection \<open>Opening the repository\<close>

text \<open>
  C3. Let \<^verbatim>\<open>ContractsRepository\<close> be called for the first time, with \<open>path\<close> the path of the
  repository file. Where no file is at the path, the call returns the empty book, in which no
  name is found, and keeps it as the repository. Where a file is at the path and its content
  does not parse, the process exits with status 1 and the file error: no repository is
  returned, and none is stored.
\<close>

theorem missing_file_empty_unparsable_fatal:
  assumes "OpenContractsRepository ext = Open files decode" and "\<not> repoOnce c"
    and "path = (if solarRepo cfg \<noteq> [] then solarRepo cfg
                 else ''solar.'' @ solarEnv cfg @ ''.json'')"
  shows "(files path = None \<longrightarrow>
            ContractsRepository cfg ext c =
              (Inr (Some []),
               c\<lparr>repo := Some [], repoOnce := True, calls := calls c @ [OpenRepo path]\<rparr>) \<and>
            (\<forall>n. AddressBook_Get [] n = None)) \<and>
         (\<forall>content. files path = Some content \<and> decode content = None \<longrightarrow>
            ContractsRepository cfg ext c =
              (Inl (OsExit 1 (ErrorOpeningRepo path (FileError path))),
               c\<lparr>calls := calls c @ [OpenRepo path]\<rparr>))"
  using assms
  by (simp add: ContractsRepository_def Open_def AddressBook_Get_def Let_def)

theorem missing_file_empty_unparsable_fatal_witness:
  "ContractsRepository cfg_sbit (example_ext Map.empty) solar_start =
     (Inr (Some []),
      solar_start\<lparr>repo := Some [], repoOnce := True,
                  calls := [OpenRepo ''solar.development.json'']\<rparr>) \<and>
   files_broken ''solar.development.json'' = Some ''{Foo'' \<and>
   example_decode ''{Foo'' = None \<and>
   ContractsRepository cfg_sbit (example_ext files_broken) solar_start =
     (Inl (OsExit 1 (ErrorOpeningRepo ''solar.development.json''
                       (FileError ''solar.development.json''))),
      solar_start\<lparr>calls := [OpenRepo ''solar.development.json'']\<rparr>)"
proof -
  have path: "''solar.development.json'' =
      (if solarRepo cfg_sbit \<noteq> [] then solarRepo cfg_sbit
       else ''solar.'' @ solarEnv cfg_sbit @ ''.json'')"
    by (simp add: cfg_sbit_def)
  have fresh: "\<not> repoOnce solar_start" and none: "calls solar_start = []"
    by (simp_all add: solar_start_def)
  have opn: "OpenContractsRepository (example_ext fs) = Open fs example_decode" for fs
    by (simp add: example_ext_def)
  have missing: "Map.empty ''solar.development.json'' = (None :: string option)"
    by simp
  have broken: "files_broken ''solar.development.json'' = Some ''{Foo''"
    and unparsable: "example_decode ''{Foo'' = None"
    by (simp_all add: files_broken_def example_decode_def)
  from missing_file_empty_unparsable_fatal [OF opn fresh path, of Map.empty] missing none
  have 1: "ContractsRepository cfg_sbit (example_ext Map.empty) solar_start =
     (Inr (Some []),
      solar_start\<lparr>repo := Some [], repoOnce := True,
                  calls := [OpenRepo ''solar.development.json'']\<rparr>)"
    by simp
  from missing_file_empty_unparsable_fatal [OF opn fresh path, of files_broken]
    broken unparsable none
  have 2: "ContractsRepository cfg_sbit (example_ext files_broken) solar_start =
     (Inl (OsExit 1 (ErrorOpeningRepo ''solar.development.json''
                       (FileError ''solar.development.json''))),
      solar_start\<lparr>calls := [OpenRepo ''solar.development.json'']\<rparr>)"
    by simp
  from 1 2 broken unparsable show ?thesis by simp
qed

subsection \<open>Confirmation\<close>

text \<open>
  C9. \<^verbatim>\<open>ConfirmContract\<close> on a record whose status is Confirmed returns no error, leaves the
  record as it is and sends nothing to the backend, whatever the chain would answer; so does
  every further call. More generally, after any call that returned no error, a further call
  returns no error and changes neither the record nor what has been sent.
\<close>

theorem ConfirmContract_idempotent:
  assumes "Status deployed = Confirmed"
  shows "ConfirmContract chain (deployed, sent) = (None, deployed, sent) \<and>
         ConfirmContract chain' (snd (ConfirmContract chain (deployed, sent))) =
           (None, deployed, sent) \<and>
         (\<forall>d0 s0 d1 s1. ConfirmContract chain (d0, s0) = (None, d1, s1) \<longrightarrow>
            ConfirmContract chain' (d1, s1) = (None, d1, s1))"
proof (intro conjI allI impI)
  show first: "ConfirmContract chain (deployed, sent) = (None, deployed, sent)"
    using assms by (simp add: ConfirmContract_def)
  have "ConfirmContract chain' (deployed, sent) = (None, deployed, sent)"
    using assms by (simp add: ConfirmContract_def)
  with first show "ConfirmContract chain' (snd (ConfirmContract chain (deployed, sent))) =
      (None, deployed, sent)"
    by simp
next
  fix d0 s0 d1 s1
  assume ok: "ConfirmContract chain (d0, s0) = (None, d1, s1)"
  then have "Status d1 = Confirmed"
    by (auto simp: ConfirmContract_def Let_def split: status.splits sum.splits report.splits)
  then show "ConfirmContract chain' (d1, s1) = (None, d1, s1)"
    by (simp add: ConfirmContract_def)
qed

theorem ConfirmContract_idempotent_witness:
  "Status contract_Foo = Confirmed \<and>
   ConfirmContract (\<lambda>tx. Inr Rejected) (contract_Foo, [Submit ''7f3a'']) =
     (None, contract_Foo, [Submit ''7f3a'']) \<and>
   ConfirmContract (\<lambda>tx. Inr (Included 12))
       (contract_Foo\<lparr>Status := Pending, BlockRef := None\<rparr>, [Submit ''7f3a'']) =
     (None, contract_Foo, [Submit ''7f3a'', Query ''7f3a'']) \<and>
   ConfirmContract (\<lambda>tx. Inl (RPCError ''timeout''))
       (contract_Foo, [Submit ''7f3a'', Query ''7f3a'']) =
     (None, contract_Foo, [Submit ''7f3a'', Query ''7f3a''])"
proof -
  have st: "Status contract_Foo = Confirmed"
    by (simp add: contract_Foo_def)
  have run: "ConfirmContract (\<lambda>tx. Inr (Included 12))
       (contract_Foo\<lparr>Status := Pending, BlockRef := None\<rparr>, [Submit ''7f3a'']) =
     (None, contract_Foo, [Submit ''7f3a'', Query ''7f3a''])"
    by (simp add: ConfirmContract_def contract_Foo_def)
  from ConfirmContract_idempotent [OF st, of "\<lambda>tx. Inr Rejected" "[Submit ''7f3a'']"]
  have 1: "ConfirmContract (\<lambda>tx. Inr Rejected) (contract_Foo, [Submit ''7f3a'']) =
     (None, contract_Foo, [Submit ''7f3a''])"
    by blast
  from ConfirmContract_idempotent [OF st,
      of "\<lambda>tx. Inr (Included 12)" "[Submit ''7f3a'']" "\<lambda>tx. Inl (RPCError ''timeout'')"] run
  have 2: "ConfirmContract (\<lambda>tx. Inl (RPCError ''timeout''))
       (contract_Foo, [Submit ''7f3a'', Query ''7f3a'']) =
     (None, contract_Foo, [Submit ''7f3a'', Query ''7f3a''])"
    by blast
  from st 1 run 2 show ?thesis by blast
qed

end
